theory Spec2Isabelle
  imports Complex_Main
begin

section \<open>The workflow store of AutoStream AI\<close>

text \<open>
  The store of \<^verbatim>\<open>frontend/src/hooks/useWorkflow.js\<close> is a zustand store: one state
  object and a set of actions that read it with \<^verbatim>\<open>get()\<close> and write it with
  \<^verbatim>\<open>set(partial)\<close>, which merges the given fields into the state and leaves every
  other field as it is. The state is a record here and \<^verbatim>\<open>set\<close> is a record update.

  Field names of the nested objects are prefixed with the object's name, since the
  source reuses \<^verbatim>\<open>title\<close>, \<^verbatim>\<open>url\<close>, \<^verbatim>\<open>duration\<close> and \<^verbatim>\<open>description\<close> in several
  objects: \<^verbatim>\<open>script.content\<close> is \<open>script_content\<close>, \<^verbatim>\<open>audio.path\<close> is
  \<open>audio_path\<close>, \<^verbatim>\<open>video.outputPath\<close> is \<open>video_outputPath\<close>, and so on.
  JavaScript numbers that are only stored and never computed with are \<open>real\<close>;
  \<^verbatim>\<open>null\<close> and \<^verbatim>\<open>undefined\<close> are \<open>None\<close>.
\<close>

subsection \<open>Data\<close>

record step =
  step_id :: string
  step_name :: string
  step_description :: string

record trend =
  trend_title :: string
  trend_description :: "string option"
  trend_source :: string
  trend_url :: "string option"

record script_artifact =
  script_content :: string
  script_title :: string
  script_duration :: real

record audio_artifact =
  audio_path :: string
  audio_url :: string
  audio_duration :: real

text \<open>An uploaded asset is an opaque handle returned by the server.\<close>

type_synonym asset = string

record asset_set =
  avatar :: "asset option"
  logo :: "asset option"
  background :: "asset option"

record video_artifact =
  video_outputPath :: string
  video_url :: string
  video_progress :: real

record state =
  currentStep :: string
  steps :: "step list"
  projectId :: "string option"
  isLoading :: bool
  error :: "string option"
  trends :: "trend list"
  selectedTrend :: "trend option"
  script :: script_artifact
  audio :: audio_artifact
  assets :: asset_set
  video :: video_artifact
  voices :: "string list"
  availableModels :: "string list"

definition initial_steps :: "step list" where
  "initial_steps =
    [\<lparr>step_id = ''trends'', step_name = ''Trends'', step_description = ''Discover trending topics''\<rparr>,
     \<lparr>step_id = ''script'', step_name = ''Script'', step_description = ''Generate your script''\<rparr>,
     \<lparr>step_id = ''audio'', step_name = ''Audio'', step_description = ''Create voiceover''\<rparr>,
     \<lparr>step_id = ''assets'', step_name = ''Assets'', step_description = ''Configure visuals''\<rparr>,
     \<lparr>step_id = ''video'', step_name = ''Video'', step_description = ''Generate video''\<rparr>,
     \<lparr>step_id = ''complete'', step_name = ''Complete'', step_description = ''Review & export''\<rparr>]"

definition empty_script :: script_artifact where
  "empty_script = \<lparr>script_content = '''', script_title = '''', script_duration = 0\<rparr>"

definition empty_audio :: audio_artifact where
  "empty_audio = \<lparr>audio_path = '''', audio_url = '''', audio_duration = 0\<rparr>"

definition empty_assets :: asset_set where
  "empty_assets = \<lparr>avatar = None, logo = None, background = None\<rparr>"

definition empty_video :: video_artifact where
  "empty_video = \<lparr>video_outputPath = '''', video_url = '''', video_progress = 0\<rparr>"

definition initial_state :: state where
  "initial_state =
    \<lparr>currentStep = ''trends'', steps = initial_steps, projectId = None,
     isLoading = False, error = None, trends = [], selectedTrend = None,
     script = empty_script, audio = empty_audio, assets = empty_assets,
     video = empty_video, voices = [], availableModels = []\<rparr>"

subsection \<open>The Gateway and thrown errors\<close>

text \<open>
  Every asynchronous action awaits exactly one call of \<^verbatim>\<open>services/api\<close>. The call is
  outside the store, so its outcome is a parameter of the model: \<open>Inl msg\<close> is a rejected
  promise whose error carries the message \<open>msg\<close> (axios rejects with an \<^verbatim>\<open>Error\<close>),
  \<open>Inr data\<close> is a response whose \<^verbatim>\<open>data\<close> is \<open>data\<close>. The arguments that an action
  only passes on to the call (query, niche, tone, length, voice settings, file, quality)
  cannot influence the store except through that outcome and are not repeated.

  An action returns a pair: what the caller sees (\<open>Inl\<close> a thrown error, \<open>Inr\<close> the returned
  value) and the state it leaves. The state is returned in both cases, because the
  \<^verbatim>\<open>catch\<close> blocks write to the store before they rethrow.
\<close>

type_synonym 'a outcome = "string + 'a"

datatype exn = Error string

type_synonym 'a result = "exn + 'a"

record script_response =
  resp_content :: string
  resp_title :: string
  resp_duration_estimate :: real

record audio_response =
  resp_audio_path :: string
  resp_audio_url :: string
  resp_audio_duration :: real

record video_response =
  resp_video_path :: string
  resp_video_url :: string

subsection \<open>Navigation\<close>

text \<open>\<^verbatim>\<open>Array.prototype.findIndex\<close>: the index of the first element that satisfies
  the predicate, \<open>-1\<close> when there is none.\<close>

fun findIndex :: "('a \<Rightarrow> bool) \<Rightarrow> 'a list \<Rightarrow> int" where
  "findIndex p [] = - 1"
| "findIndex p (x # xs) =
     (if p x then 0
      else (let i = findIndex p xs in if i < 0 then - 1 else i + 1))"

definition setCurrentStep :: "string \<Rightarrow> state \<Rightarrow> state" where
  "setCurrentStep st s = s\<lparr>currentStep := st\<rparr>"

definition nextStep :: "state \<Rightarrow> state" where
  "nextStep s =
     (let currentIndex = findIndex (\<lambda>x. step_id x = currentStep s) (steps s) in
      if currentIndex < int (length (steps s)) - 1
      then s\<lparr>currentStep := step_id (steps s ! nat (currentIndex + 1))\<rparr>
      else s)"

definition previousStep :: "state \<Rightarrow> state" where
  "previousStep s =
     (let currentIndex = findIndex (\<lambda>x. step_id x = currentStep s) (steps s) in
      if currentIndex > 0
      then s\<lparr>currentStep := step_id (steps s ! nat (currentIndex - 1))\<rparr>
      else s)"

subsection \<open>Trend actions\<close>

text \<open>
  An action that awaits is written in two parts, split at the \<^verbatim>\<open>await\<close>: \<open>_begin\<close> is
  what runs before the call is sent, \<open>_end\<close> is what runs once its outcome is known. The
  action is their composition.
\<close>

definition searchTrends_begin :: "state \<Rightarrow> state" where
  "searchTrends_begin s = s\<lparr>isLoading := True, error := None\<rparr>"

definition searchTrends_end :: "trend list outcome \<Rightarrow> state \<Rightarrow> trend list result \<times> state" where
  "searchTrends_end r s =
     (case r of
        Inr data \<Rightarrow> (Inr data, s\<lparr>trends := data, isLoading := False\<rparr>)
      | Inl msg \<Rightarrow> (Inl (Error msg), s\<lparr>error := Some msg, isLoading := False\<rparr>))"

definition searchTrends :: "trend list outcome \<Rightarrow> state \<Rightarrow> trend list result \<times> state" where
  "searchTrends r s = searchTrends_end r (searchTrends_begin s)"

definition selectTrend_begin :: "state \<Rightarrow> state" where
  "selectTrend_begin s = s\<lparr>isLoading := True, error := None\<rparr>"

definition selectTrend_end :: "trend \<Rightarrow> unit outcome \<Rightarrow> state \<Rightarrow> unit result \<times> state" where
  "selectTrend_end t r s =
     (case r of
        Inr _ \<Rightarrow> (Inr (), nextStep (s\<lparr>selectedTrend := Some t, isLoading := False\<rparr>))
      | Inl msg \<Rightarrow> (Inl (Error msg), s\<lparr>error := Some msg, isLoading := False\<rparr>))"

definition selectTrend :: "trend \<Rightarrow> unit outcome \<Rightarrow> state \<Rightarrow> unit result \<times> state" where
  "selectTrend t r s = selectTrend_end t r (selectTrend_begin s)"

subsection \<open>Script actions\<close>

text \<open>\<^verbatim>\<open>generateScript\<close> throws before it touches the store when no trend is selected.\<close>

definition generateScript_begin :: "state \<Rightarrow> exn + state" where
  "generateScript_begin s =
     (case selectedTrend s of
        None \<Rightarrow> Inl (Error ''No trend selected'')
      | Some _ \<Rightarrow> Inr (s\<lparr>isLoading := True, error := None\<rparr>))"

definition generateScript_end ::
  "script_response outcome \<Rightarrow> state \<Rightarrow> script_response result \<times> state" where
  "generateScript_end r s =
     (case r of
        Inr data \<Rightarrow>
          (Inr data,
           s\<lparr>script := \<lparr>script_content = resp_content data, script_title = resp_title data,
                        script_duration = resp_duration_estimate data\<rparr>,
             isLoading := False\<rparr>)
      | Inl msg \<Rightarrow> (Inl (Error msg), s\<lparr>error := Some msg, isLoading := False\<rparr>))"

definition generateScript ::
  "script_response outcome \<Rightarrow> state \<Rightarrow> script_response result \<times> state" where
  "generateScript r s =
     (case generateScript_begin s of
        Inl e \<Rightarrow> (Inl e, s)
      | Inr s1 \<Rightarrow> generateScript_end r s1)"

text \<open>\<^verbatim>\<open>updateScript\<close> and \<^verbatim>\<open>approveScript\<close> write nothing before the call.\<close>

definition updateScript :: "string \<Rightarrow> unit outcome \<Rightarrow> state \<Rightarrow> unit result \<times> state" where
  "updateScript content r s =
     (case r of
        Inr _ \<Rightarrow> (Inr (), s\<lparr>script := (script s)\<lparr>script_content := content\<rparr>\<rparr>)
      | Inl msg \<Rightarrow> (Inl (Error msg), s\<lparr>error := Some msg\<rparr>))"

definition approveScript :: "unit outcome \<Rightarrow> state \<Rightarrow> unit result \<times> state" where
  "approveScript r s =
     (case r of
        Inr _ \<Rightarrow> (Inr (), nextStep s)
      | Inl msg \<Rightarrow> (Inl (Error msg), s\<lparr>error := Some msg\<rparr>))"

subsection \<open>Audio actions\<close>

text \<open>\<^verbatim>\<open>loadVoices\<close> logs a failure to the console and neither records nor rethrows it.\<close>

definition loadVoices :: "string list outcome \<Rightarrow> state \<Rightarrow> unit result \<times> state" where
  "loadVoices r s =
     (case r of
        Inr data \<Rightarrow> (Inr (), s\<lparr>voices := data\<rparr>)
      | Inl msg \<Rightarrow> (Inr (), s))"

text \<open>The empty string is the only falsy script content.\<close>

definition generateAudio_begin :: "state \<Rightarrow> exn + state" where
  "generateAudio_begin s =
     (if script_content (script s) = '''' then Inl (Error ''No script available'')
      else Inr (s\<lparr>isLoading := True, error := None\<rparr>))"

definition generateAudio_end ::
  "audio_response outcome \<Rightarrow> state \<Rightarrow> audio_response result \<times> state" where
  "generateAudio_end r s =
     (case r of
        Inr data \<Rightarrow>
          (Inr data,
           s\<lparr>audio := \<lparr>audio_path = resp_audio_path data, audio_url = resp_audio_url data,
                       audio_duration = resp_audio_duration data\<rparr>,
             isLoading := False\<rparr>)
      | Inl msg \<Rightarrow> (Inl (Error msg), s\<lparr>error := Some msg, isLoading := False\<rparr>))"

definition generateAudio ::
  "audio_response outcome \<Rightarrow> state \<Rightarrow> audio_response result \<times> state" where
  "generateAudio r s =
     (case generateAudio_begin s of
        Inl e \<Rightarrow> (Inl e, s)
      | Inr s1 \<Rightarrow> generateAudio_end r s1)"

definition approveAudio :: "unit outcome \<Rightarrow> state \<Rightarrow> unit result \<times> state" where
  "approveAudio r s =
     (case r of
        Inr _ \<Rightarrow> (Inr (), nextStep s)
      | Inl msg \<Rightarrow> (Inl (Error msg), s\<lparr>error := Some msg\<rparr>))"

subsection \<open>Asset actions\<close>

definition upload_begin :: "state \<Rightarrow> state" where
  "upload_begin s = s\<lparr>isLoading := True, error := None\<rparr>"

definition uploadAvatar_end ::
  "asset option outcome \<Rightarrow> state \<Rightarrow> asset option result \<times> state" where
  "uploadAvatar_end r s =
     (case r of
        Inr data \<Rightarrow> (Inr data, s\<lparr>assets := (assets s)\<lparr>avatar := data\<rparr>, isLoading := False\<rparr>)
      | Inl msg \<Rightarrow> (Inl (Error msg), s\<lparr>error := Some msg, isLoading := False\<rparr>))"

definition uploadAvatar ::
  "asset option outcome \<Rightarrow> state \<Rightarrow> asset option result \<times> state" where
  "uploadAvatar r s = uploadAvatar_end r (upload_begin s)"

definition uploadLogo_end ::
  "asset option outcome \<Rightarrow> state \<Rightarrow> asset option result \<times> state" where
  "uploadLogo_end r s =
     (case r of
        Inr data \<Rightarrow> (Inr data, s\<lparr>assets := (assets s)\<lparr>logo := data\<rparr>, isLoading := False\<rparr>)
      | Inl msg \<Rightarrow> (Inl (Error msg), s\<lparr>error := Some msg, isLoading := False\<rparr>))"

definition uploadLogo ::
  "asset option outcome \<Rightarrow> state \<Rightarrow> asset option result \<times> state" where
  "uploadLogo r s = uploadLogo_end r (upload_begin s)"

definition uploadBackground_end ::
  "asset option outcome \<Rightarrow> state \<Rightarrow> asset option result \<times> state" where
  "uploadBackground_end r s =
     (case r of
        Inr data \<Rightarrow>
          (Inr data, s\<lparr>assets := (assets s)\<lparr>background := data\<rparr>, isLoading := False\<rparr>)
      | Inl msg \<Rightarrow> (Inl (Error msg), s\<lparr>error := Some msg, isLoading := False\<rparr>))"

definition uploadBackground ::
  "asset option outcome \<Rightarrow> state \<Rightarrow> asset option result \<times> state" where
  "uploadBackground r s = uploadBackground_end r (upload_begin s)"

subsection \<open>Video actions\<close>

definition generateVideo_begin :: "state \<Rightarrow> state" where
  "generateVideo_begin s = s\<lparr>isLoading := True, error := None\<rparr>"

definition generateVideo_end ::
  "video_response outcome \<Rightarrow> state \<Rightarrow> video_response result \<times> state" where
  "generateVideo_end r s =
     (case r of
        Inr data \<Rightarrow>
          (Inr data,
           s\<lparr>video := \<lparr>video_outputPath = resp_video_path data, video_url = resp_video_url data,
                       video_progress = 100\<rparr>,
             isLoading := False\<rparr>)
      | Inl msg \<Rightarrow> (Inl (Error msg), s\<lparr>error := Some msg, isLoading := False\<rparr>))"

definition generateVideo ::
  "video_response outcome \<Rightarrow> state \<Rightarrow> video_response result \<times> state" where
  "generateVideo r s = generateVideo_end r (generateVideo_begin s)"

text \<open>The only check of the video's inputs is in the \<^verbatim>\<open>VideoPreview\<close> component, which
  disables its button unless \<^verbatim>\<open>assets.avatar && audio.path\<close>.\<close>

definition canGenerate :: "state \<Rightarrow> bool" where
  "canGenerate s \<longleftrightarrow> avatar (assets s) \<noteq> None \<and> audio_path (audio s) \<noteq> ''''"

subsection \<open>Project, settings and utility actions\<close>

definition createProject :: "string option outcome \<Rightarrow> state \<Rightarrow> string option result \<times> state" where
  "createProject r s =
     (case r of
        Inr data \<Rightarrow> (Inr data, s\<lparr>projectId := data\<rparr>)
      | Inl msg \<Rightarrow> (Inl (Error msg), s\<lparr>error := Some msg\<rparr>))"

definition loadModels :: "string list outcome \<Rightarrow> state \<Rightarrow> unit result \<times> state" where
  "loadModels r s =
     (case r of
        Inr data \<Rightarrow> (Inr (), s\<lparr>availableModels := data\<rparr>)
      | Inl msg \<Rightarrow> (Inr (), s))"

definition resetError :: "state \<Rightarrow> state" where
  "resetError s = s\<lparr>error := None\<rparr>"

definition reset :: "state \<Rightarrow> state" where
  "reset s =
     s\<lparr>currentStep := ''trends'', projectId := None, isLoading := False, error := None,
       trends := [], selectedTrend := None, script := empty_script, audio := empty_audio,
       assets := empty_assets, video := empty_video\<rparr>"

subsection \<open>Operations as data\<close>

text \<open>
  A call of an action together with the outcome of its Gateway call, so that sequences
  of calls can be run. The synchronous actions make no Gateway call.
\<close>

datatype op =
    SetCurrentStep string
  | NextStep
  | PreviousStep
  | SearchTrends "trend list outcome"
  | SelectTrend trend "unit outcome"
  | GenerateScript "script_response outcome"
  | UpdateScript string "unit outcome"
  | ApproveScript "unit outcome"
  | LoadVoices "string list outcome"
  | GenerateAudio "audio_response outcome"
  | ApproveAudio "unit outcome"
  | UploadAvatar "asset option outcome"
  | UploadLogo "asset option outcome"
  | UploadBackground "asset option outcome"
  | GenerateVideo "video_response outcome"
  | CreateProject "string option outcome"
  | LoadModels "string list outcome"
  | ResetError
  | Reset

text \<open>What the caller observes of a call: the thrown error, if any, and the state left.\<close>

definition thrown :: "'a result \<times> state \<Rightarrow> exn option \<times> state" where
  "thrown p = (case fst p of Inl e \<Rightarrow> Some e | Inr _ \<Rightarrow> None, snd p)"

fun exec :: "op \<Rightarrow> state \<Rightarrow> exn option \<times> state" where
  "exec (SetCurrentStep st) s = (None, setCurrentStep st s)"
| "exec NextStep s = (None, nextStep s)"
| "exec PreviousStep s = (None, previousStep s)"
| "exec (SearchTrends r) s = thrown (searchTrends r s)"
| "exec (SelectTrend t r) s = thrown (selectTrend t r s)"
| "exec (GenerateScript r) s = thrown (generateScript r s)"
| "exec (UpdateScript c r) s = thrown (updateScript c r s)"
| "exec (ApproveScript r) s = thrown (approveScript r s)"
| "exec (LoadVoices r) s = thrown (loadVoices r s)"
| "exec (GenerateAudio r) s = thrown (generateAudio r s)"
| "exec (ApproveAudio r) s = thrown (approveAudio r s)"
| "exec (UploadAvatar r) s = thrown (uploadAvatar r s)"
| "exec (UploadLogo r) s = thrown (uploadLogo r s)"
| "exec (UploadBackground r) s = thrown (uploadBackground r s)"
| "exec (GenerateVideo r) s = thrown (generateVideo r s)"
| "exec (CreateProject r) s = thrown (createProject r s)"
| "exec (LoadModels r) s = thrown (loadModels r s)"
| "exec ResetError s = (None, resetError s)"
| "exec Reset s = (None, reset s)"

text \<open>A sequence of calls; a caller that catches a thrown error goes on with the state
  the failed call left.\<close>

fun run_ops :: "op list \<Rightarrow> state \<Rightarrow> state" where
  "run_ops [] s = s"
| "run_ops (x # xs) s = run_ops xs (snd (exec x s))"

text \<open>The message of the Gateway failure of a call, \<open>None\<close> when its Gateway call
  succeeds or it makes none.\<close>

definition failure :: "'a outcome \<Rightarrow> string option" where
  "failure r = (case r of Inl msg \<Rightarrow> Some msg | Inr _ \<Rightarrow> None)"

fun gateway_error :: "op \<Rightarrow> string option" where
  "gateway_error (SearchTrends r) = failure r"
| "gateway_error (SelectTrend t r) = failure r"
| "gateway_error (GenerateScript r) = failure r"
| "gateway_error (UpdateScript c r) = failure r"
| "gateway_error (ApproveScript r) = failure r"
| "gateway_error (LoadVoices r) = failure r"
| "gateway_error (GenerateAudio r) = failure r"
| "gateway_error (ApproveAudio r) = failure r"
| "gateway_error (UploadAvatar r) = failure r"
| "gateway_error (UploadLogo r) = failure r"
| "gateway_error (UploadBackground r) = failure r"
| "gateway_error (GenerateVideo r) = failure r"
| "gateway_error (CreateProject r) = failure r"
| "gateway_error (LoadModels r) = failure r"
| "gateway_error _ = None"

definition gateway_failed :: "op \<Rightarrow> bool" where
  "gateway_failed x \<longleftrightarrow> gateway_error x \<noteq> None"

text \<open>The state in which a call sends its Gateway request: \<open>None\<close> when it sends none
  from this state, because the action is synchronous or because its guard threw.\<close>

fun call_sent :: "op \<Rightarrow> state \<Rightarrow> state option" where
  "call_sent (SearchTrends r) s = Some (searchTrends_begin s)"
| "call_sent (SelectTrend t r) s = Some (selectTrend_begin s)"
| "call_sent (GenerateScript r) s =
     (case generateScript_begin s of Inl _ \<Rightarrow> None | Inr s1 \<Rightarrow> Some s1)"
| "call_sent (UpdateScript c r) s = Some s"
| "call_sent (ApproveScript r) s = Some s"
| "call_sent (LoadVoices r) s = Some s"
| "call_sent (GenerateAudio r) s =
     (case generateAudio_begin s of Inl _ \<Rightarrow> None | Inr s1 \<Rightarrow> Some s1)"
| "call_sent (ApproveAudio r) s = Some s"
| "call_sent (UploadAvatar r) s = Some (upload_begin s)"
| "call_sent (UploadLogo r) s = Some (upload_begin s)"
| "call_sent (UploadBackground r) s = Some (upload_begin s)"
| "call_sent (GenerateVideo r) s = Some (generateVideo_begin s)"
| "call_sent (CreateProject r) s = Some s"
| "call_sent (LoadModels r) s = Some s"
| "call_sent _ s = None"

text \<open>The actions whose first statement is \<^verbatim>\<open>set({ isLoading: true, error: null })\<close>
  (for \<^verbatim>\<open>generateScript\<close> and \<^verbatim>\<open>generateAudio\<close>, the first statement after the guard).\<close>

fun sets_busy :: "op \<Rightarrow> bool" where
  "sets_busy (SearchTrends r) = True"
| "sets_busy (SelectTrend t r) = True"
| "sets_busy (GenerateScript r) = True"
| "sets_busy (GenerateAudio r) = True"
| "sets_busy (UploadAvatar r) = True"
| "sets_busy (UploadLogo r) = True"
| "sets_busy (UploadBackground r) = True"
| "sets_busy (GenerateVideo r) = True"
| "sets_busy _ = False"

text \<open>The artifacts of the pipeline: the selected trend, the script, the voice track, the
  assets and the video.\<close>

definition artifact_store ::
  "state \<Rightarrow> trend option \<times> script_artifact \<times> audio_artifact \<times> asset_set \<times> video_artifact" where
  "artifact_store s = (selectedTrend s, script s, audio s, assets s, video s)"

subsection \<open>Sample data\<close>

definition trend_a :: trend where
  "trend_a = \<lparr>trend_title = ''AI agents'', trend_description = Some ''Agents everywhere'',
               trend_source = ''reddit'', trend_url = None\<rparr>"

definition trend_b :: trend where
  "trend_b = \<lparr>trend_title = ''Quantum chips'', trend_description = None,
               trend_source = ''news'', trend_url = Some ''https://example.org/q''\<rparr>"

definition script_hello :: script_response where
  "script_hello = \<lparr>resp_content = ''Hello world'', resp_title = ''Greeting'',
                    resp_duration_estimate = 30\<rparr>"

definition video_out :: video_response where
  "video_out = \<lparr>resp_video_path = ''out/final.mp4'', resp_video_url = ''/videos/final.mp4''\<rparr>"

section \<open>Supporting lemmas\<close>

lemmas action_defs =
  thrown_def failure_def setCurrentStep_def
  searchTrends_def searchTrends_begin_def searchTrends_end_def
  selectTrend_def selectTrend_begin_def selectTrend_end_def
  generateScript_def generateScript_begin_def generateScript_end_def
  updateScript_def approveScript_def loadVoices_def
  generateAudio_def generateAudio_begin_def generateAudio_end_def approveAudio_def
  upload_begin_def uploadAvatar_def uploadAvatar_end_def uploadLogo_def uploadLogo_end_def
  uploadBackground_def uploadBackground_end_def
  generateVideo_def generateVideo_begin_def generateVideo_end_def
  createProject_def loadModels_def resetError_def reset_def

text \<open>\<^verbatim>\<open>findIndex\<close> returns \<open>-1\<close> or an index of the list, so the reads
  \<^verbatim>\<open>steps[currentIndex + 1]\<close> and \<^verbatim>\<open>steps[currentIndex - 1]\<close> are always in range.\<close>

lemma findIndex_range: "- 1 \<le> findIndex p xs \<and> findIndex p xs < int (length xs)"
  by (induction xs) (auto simp: Let_def)

lemma findIndex_found:
  "0 \<le> findIndex p xs \<Longrightarrow> p (xs ! nat (findIndex p xs))"
proof (induction xs)
  case Nil
  then show ?case by simp
next
  case (Cons x xs)
  show ?case
  proof (cases "p x")
    case True
    then show ?thesis by simp
  next
    case False
    with Cons.prems have nn: "0 \<le> findIndex p xs"
      by (simp add: Let_def split: if_splits)
    with Cons.IH have "p (xs ! nat (findIndex p xs))" by simp
    with False nn show ?thesis
      by (simp add: Let_def nat_add_distrib)
  qed
qed

lemma nextStep_target_in_range:
  "findIndex p xs < int (length xs) - 1 \<Longrightarrow> nat (findIndex p xs + 1) < length xs"
  using findIndex_range [of p xs] by linarith

lemma previousStep_target_in_range:
  "0 < findIndex p xs \<Longrightarrow> nat (findIndex p xs - 1) < length xs"
  using findIndex_range [of p xs] by linarith

text \<open>The navigation actions read the stage pointer and the step list and write the
  stage pointer only.\<close>

lemma nextStep_frame: "nextStep s = s\<lparr>currentStep := currentStep (nextStep s)\<rparr>"
  by (simp add: nextStep_def Let_def)

lemma previousStep_frame: "previousStep s = s\<lparr>currentStep := currentStep (previousStep s)\<rparr>"
  by (simp add: previousStep_def Let_def)

lemma nextStep_reads:
  "currentStep t = currentStep s \<Longrightarrow> steps t = steps s \<Longrightarrow>
   currentStep (nextStep t) = currentStep (nextStep s)"
  by (simp add: nextStep_def Let_def)

lemma nextStep_fields:
  "steps (nextStep s) = steps s" "projectId (nextStep s) = projectId s"
  "isLoading (nextStep s) = isLoading s" "error (nextStep s) = error s"
  "trends (nextStep s) = trends s" "selectedTrend (nextStep s) = selectedTrend s"
  "script (nextStep s) = script s" "audio (nextStep s) = audio s"
  "assets (nextStep s) = assets s" "video (nextStep s) = video s"
  by (simp_all add: nextStep_def Let_def)

lemma previousStep_fields:
  "steps (previousStep s) = steps s" "projectId (previousStep s) = projectId s"
  "isLoading (previousStep s) = isLoading s" "error (previousStep s) = error s"
  "trends (previousStep s) = trends s" "selectedTrend (previousStep s) = selectedTrend s"
  "script (previousStep s) = script s" "audio (previousStep s) = audio s"
  "assets (previousStep s) = assets s" "video (previousStep s) = video s"
  by (simp_all add: previousStep_def Let_def)

lemma nextStep_initial_steps:
  assumes "steps s = initial_steps"
  shows "currentStep s = ''trends'' \<Longrightarrow> currentStep (nextStep s) = ''script''"
    and "currentStep s = ''script'' \<Longrightarrow> currentStep (nextStep s) = ''audio''"
    and "currentStep s = ''audio'' \<Longrightarrow> currentStep (nextStep s) = ''assets''"
    and "currentStep s = ''assets'' \<Longrightarrow> currentStep (nextStep s) = ''video''"
    and "currentStep s = ''video'' \<Longrightarrow> currentStep (nextStep s) = ''complete''"
    and "currentStep s = ''complete'' \<Longrightarrow> nextStep s = s"
  using assms by (simp_all add: nextStep_def initial_steps_def)

lemma previousStep_initial_steps:
  assumes "steps s = initial_steps"
  shows "currentStep s = ''trends'' \<Longrightarrow> previousStep s = s"
    and "currentStep s = ''script'' \<Longrightarrow> currentStep (previousStep s) = ''trends''"
    and "currentStep s = ''audio'' \<Longrightarrow> currentStep (previousStep s) = ''script''"
    and "currentStep s = ''assets'' \<Longrightarrow> currentStep (previousStep s) = ''audio''"
    and "currentStep s = ''video'' \<Longrightarrow> currentStep (previousStep s) = ''assets''"
    and "currentStep s = ''complete'' \<Longrightarrow> currentStep (previousStep s) = ''video''"
  using assms by (simp_all add: previousStep_def initial_steps_def)

lemma run_ops_append: "run_ops (xs @ ys) s = run_ops ys (run_ops xs s)"
  by (induction xs arbitrary: s) simp_all

text \<open>A call that throws, or whose Gateway call fails, changes at most \<open>isLoading\<close> and
  \<open>error\<close>.\<close>

lemma exec_failed_frame:
  assumes "gateway_failed x \<or> fst (exec x s) \<noteq> None"
  shows "\<exists>b e. snd (exec x s) = s\<lparr>isLoading := b, error := e\<rparr>"
proof -
  have "snd (exec x s) =
        s\<lparr>isLoading := isLoading (snd (exec x s)), error := error (snd (exec x s))\<rparr>"
    using assms
    by (cases x) (auto simp: gateway_failed_def action_defs split: sum.splits option.splits)
  then show ?thesis by blast
qed

text \<open>\<open>sets_busy\<close> singles out the actions that send a Gateway call and have always raised
  \<open>isLoading\<close> when they send it.\<close>

lemma sets_busy_iff:
  "sets_busy x \<longleftrightarrow>
     (\<exists>s. call_sent x s \<noteq> None) \<and> (\<forall>s s1. call_sent x s = Some s1 \<longrightarrow> isLoading s1)"
proof (cases "sets_busy x")
  case True
  have sent: "call_sent x (initial_state\<lparr>selectedTrend := Some trend_a,
      script := \<lparr>script_content = ''Hello world'', script_title = '''', script_duration = 0\<rparr>\<rparr>)
      \<noteq> None"
    using True by (cases x) (simp_all add: action_defs)
  have "call_sent x s = Some s1 \<Longrightarrow> isLoading s1" for s s1
    using True by (cases x) (auto simp: action_defs split: option.splits if_splits)
  with True sent show ?thesis by blast
next
  case False
  have "call_sent x initial_state = None \<or> call_sent x initial_state = Some initial_state"
    using False by (cases x) simp_all
  moreover have "call_sent x s = None" if "call_sent x initial_state = None" for s
    using that False by (cases x) simp_all
  moreover have "\<not> isLoading initial_state"
    by (simp add: initial_state_def)
  ultimately show ?thesis
    using False by metis
qed

text \<open>The second half of such an action releases the flag in whatever state it resumes.\<close>

lemma end_releases_busy:
  "\<not> isLoading (snd (searchTrends_end r1 s))"
  "\<not> isLoading (snd (selectTrend_end t r2 s))"
  "\<not> isLoading (snd (generateScript_end r3 s))"
  "\<not> isLoading (snd (generateAudio_end r4 s))"
  "\<not> isLoading (snd (uploadAvatar_end r5 s))"
  "\<not> isLoading (snd (uploadLogo_end r5 s))"
  "\<not> isLoading (snd (uploadBackground_end r5 s))"
  "\<not> isLoading (snd (generateVideo_end r6 s))"
  by (simp_all add: action_defs nextStep_fields split: sum.splits)

section \<open>The claims\<close>

subsection \<open>C1: selecting a trend\<close>

text \<open>
  C1 (as amended). A \<^verbatim>\<open>selectTrend\<close> whose Gateway call succeeds returns normally,
  commits the trend as the selected trend, leaves the script, the audio, the assets and the
  video exactly as they were, ends with \<open>isLoading\<close> false and \<open>error\<close> cleared, and moves the
  stage pointer where \<^verbatim>\<open>nextStep\<close> moves it: to \<open>script\<close> when the stage was \<open>trends\<close>.
  When the Gateway call fails, the error is rethrown and neither an artifact nor the stage
  changes. No downstream artifact is cleared by \<^verbatim>\<open>selectTrend\<close>.
\<close>

theorem selectTrend_commits_and_keeps_downstream:
  "fst (selectTrend t (Inr ()) s) = Inr () \<and>
   selectedTrend (snd (selectTrend t (Inr ()) s)) = Some t \<and>
   script (snd (selectTrend t (Inr ()) s)) = script s \<and>
   audio (snd (selectTrend t (Inr ()) s)) = audio s \<and>
   assets (snd (selectTrend t (Inr ()) s)) = assets s \<and>
   video (snd (selectTrend t (Inr ()) s)) = video s \<and>
   isLoading (snd (selectTrend t (Inr ()) s)) = False \<and>
   error (snd (selectTrend t (Inr ()) s)) = None \<and>
   currentStep (snd (selectTrend t (Inr ()) s)) = currentStep (nextStep s) \<and>
   (steps s = initial_steps \<and> currentStep s = ''trends'' \<longrightarrow>
      currentStep (snd (selectTrend t (Inr ()) s)) = ''script'') \<and>
   fst (selectTrend t (Inl m) s) = Inl (Error m) \<and>
   artifact_store (snd (selectTrend t (Inl m) s)) = artifact_store s \<and>
   currentStep (snd (selectTrend t (Inl m) s)) = currentStep s"
proof -
  let ?s1 = "s\<lparr>isLoading := True, error := None, selectedTrend := Some t, isLoading := False\<rparr>"
  have ok: "selectTrend t (Inr ()) s = (Inr (), nextStep ?s1)"
    by (simp add: selectTrend_def selectTrend_begin_def selectTrend_end_def)
  have step: "currentStep (nextStep ?s1) = currentStep (nextStep s)"
    by (rule nextStep_reads) simp_all
  have named: "steps s = initial_steps \<and> currentStep s = ''trends'' \<longrightarrow>
      currentStep (nextStep s) = ''script''"
    by (simp add: nextStep_initial_steps)
  have bad: "selectTrend t (Inl m) s = (Inl (Error m), s\<lparr>isLoading := False, error := Some m\<rparr>)"
    by (simp add: selectTrend_def selectTrend_begin_def selectTrend_end_def)
  show ?thesis
    using step named by (simp add: ok bad nextStep_fields artifact_store_def)
qed

text \<open>C1, witness: selecting \<open>trend_a\<close> in the initial state.\<close>

theorem selectTrend_commits_and_keeps_downstream_witness:
  "selectedTrend (snd (selectTrend trend_a (Inr ()) initial_state)) = Some trend_a \<and>
   script (snd (selectTrend trend_a (Inr ()) initial_state)) = empty_script \<and>
   currentStep (snd (selectTrend trend_a (Inr ()) initial_state)) = ''script''"
proof -
  have h: "steps initial_state = initial_steps \<and> currentStep initial_state = ''trends''"
    by (simp add: initial_state_def)
  have e: "script initial_state = empty_script"
    by (simp add: initial_state_def)
  from selectTrend_commits_and_keeps_downstream [of trend_a initial_state "''x''"] h e
  show ?thesis by auto
qed

text \<open>
  C1, counterexample to the claim as stated. After a search, a selection, a generated
  script, a step back to \<open>trends\<close> and the selection of another trend, the script is still
  the one generated for the first trend; selected from the stage \<open>audio\<close>, a trend moves
  the stage to \<open>assets\<close>, not to \<open>script\<close>; and a selection whose Gateway call fails commits
  nothing.
\<close>

theorem selectTrend_keeps_downstream_counterexample:
  "script_content (script (run_ops
      [SearchTrends (Inr [trend_a, trend_b]), SelectTrend trend_a (Inr ()),
       GenerateScript (Inr script_hello), SetCurrentStep ''trends'',
       SelectTrend trend_b (Inr ())] initial_state)) = ''Hello world'' \<and>
   script_content (script (snd (selectTrend trend_b (Inr ())
      (initial_state\<lparr>script := \<lparr>script_content = ''Hello world'', script_title = ''Greeting'',
                                  script_duration = 30\<rparr>\<rparr>)))) \<noteq> '''' \<and>
   currentStep (snd (selectTrend trend_b (Inr ()) (initial_state\<lparr>currentStep := ''audio''\<rparr>)))
     \<noteq> ''script'' \<and>
   selectedTrend (snd (selectTrend trend_b (Inl ''Network Error'') initial_state)) \<noteq> Some trend_b"
  by (simp add: action_defs nextStep_def initial_state_def initial_steps_def script_hello_def)

subsection \<open>C2: forward navigation\<close>

text \<open>
  C2 (as amended). The stage pointer moves forward without any check of the artifacts:
  the stage \<^verbatim>\<open>nextStep\<close> moves to does not depend on the selected trend, script, audio,
  assets or video; from each of the first five stages it moves to the following one and at
  \<open>complete\<close> it does nothing; \<^verbatim>\<open>setCurrentStep\<close> sets whatever stage it is given.
  Neither action changes an artifact.
\<close>

theorem forward_navigation_unguarded:
  "currentStep (nextStep (s\<lparr>selectedTrend := a, script := b, audio := c, assets := d,
      video := e\<rparr>)) = currentStep (nextStep s) \<and>
   artifact_store (nextStep s) = artifact_store s \<and>
   currentStep (setCurrentStep st s) = st \<and>
   artifact_store (setCurrentStep st s) = artifact_store s \<and>
   (steps s = initial_steps \<longrightarrow>
      (currentStep s = ''trends'' \<longrightarrow> currentStep (nextStep s) = ''script'') \<and>
      (currentStep s = ''script'' \<longrightarrow> currentStep (nextStep s) = ''audio'') \<and>
      (currentStep s = ''audio'' \<longrightarrow> currentStep (nextStep s) = ''assets'') \<and>
      (currentStep s = ''assets'' \<longrightarrow> currentStep (nextStep s) = ''video'') \<and>
      (currentStep s = ''video'' \<longrightarrow> currentStep (nextStep s) = ''complete'') \<and>
      (currentStep s = ''complete'' \<longrightarrow> nextStep s = s))"
proof -
  have "currentStep (nextStep (s\<lparr>selectedTrend := a, script := b, audio := c, assets := d,
      video := e\<rparr>)) = currentStep (nextStep s)"
    by (rule nextStep_reads) simp_all
  moreover have "artifact_store (nextStep s) = artifact_store s"
    by (simp add: artifact_store_def nextStep_fields)
  moreover have "currentStep (setCurrentStep st s) = st"
    and "artifact_store (setCurrentStep st s) = artifact_store s"
    by (simp_all add: setCurrentStep_def artifact_store_def)
  ultimately show ?thesis
    by (simp add: nextStep_initial_steps)
qed

text \<open>C2, witness: \<^verbatim>\<open>nextStep\<close> in the initial state.\<close>

theorem forward_navigation_unguarded_witness:
  "currentStep (nextStep initial_state) = ''script'' \<and>
   artifact_store (nextStep initial_state) = artifact_store initial_state"
proof -
  have h: "steps initial_state = initial_steps" "currentStep initial_state = ''trends''"
    by (simp_all add: initial_state_def)
  from forward_navigation_unguarded [where s = initial_state] h
  show ?thesis by auto
qed

text \<open>
  C2, counterexample to the claim as stated. In the initial state, where nothing has been
  selected or generated, \<^verbatim>\<open>nextStep\<close> (the stepper's Skip button) enters \<open>script\<close>; five
  of them reach \<open>complete\<close> with every artifact still empty; and \<^verbatim>\<open>setCurrentStep\<close>
  enters \<open>video\<close> with no avatar.
\<close>

theorem forward_navigation_unguarded_counterexample:
  "currentStep (nextStep initial_state) = ''script'' \<and>
   selectedTrend (nextStep initial_state) = None \<and>
   currentStep (run_ops [NextStep, NextStep, NextStep, NextStep, NextStep] initial_state)
     = ''complete'' \<and>
   artifact_store (run_ops [NextStep, NextStep, NextStep, NextStep, NextStep] initial_state)
     = (None, empty_script, empty_audio, empty_assets, empty_video) \<and>
   currentStep (setCurrentStep ''video'' initial_state) = ''video'' \<and>
   avatar (assets (setCurrentStep ''video'' initial_state)) = None"
  by (simp add: nextStep_def setCurrentStep_def artifact_store_def initial_state_def
      initial_steps_def empty_assets_def)

subsection \<open>C3: a failed call writes no artifact\<close>

text \<open>
  C3. After any sequence of calls \<open>pre\<close>, run from any state, a call whose Gateway call
  fails, and likewise a call that throws for any other reason, leaves the selected trend,
  the script, the audio, the assets and the video as they were before it; the trend list
  and the stage are unchanged as well.
\<close>

theorem failed_call_keeps_artifact_store:
  "gateway_failed x \<or> fst (exec x (run_ops pre s)) \<noteq> None \<Longrightarrow>
   artifact_store (run_ops (pre @ [x]) s) = artifact_store (run_ops pre s) \<and>
   trends (run_ops (pre @ [x]) s) = trends (run_ops pre s) \<and>
   currentStep (run_ops (pre @ [x]) s) = currentStep (run_ops pre s)"
proof -
  let ?s = "run_ops pre s"
  assume f: "gateway_failed x \<or> fst (exec x ?s) \<noteq> None"
  have after: "run_ops (pre @ [x]) s = snd (exec x ?s)"
    by (simp add: run_ops_append)
  from f obtain b e where "snd (exec x ?s) = ?s\<lparr>isLoading := b, error := e\<rparr>"
    using exec_failed_frame by blast
  then have "artifact_store (snd (exec x ?s)) = artifact_store ?s
      \<and> trends (snd (exec x ?s)) = trends ?s
      \<and> currentStep (snd (exec x ?s)) = currentStep ?s"
    by (simp add: artifact_store_def)
  with after show ?thesis by simp
qed

text \<open>C3, witness: a script generation that times out after a search and a selection.\<close>

theorem failed_call_keeps_artifact_store_witness:
  "gateway_failed (GenerateScript (Inl ''timeout of 30000ms exceeded'')) \<and>
   artifact_store (run_ops
     ([SearchTrends (Inr [trend_a]), SelectTrend trend_a (Inr ())] @
      [GenerateScript (Inl ''timeout of 30000ms exceeded'')]) initial_state) =
   artifact_store (run_ops
     [SearchTrends (Inr [trend_a]), SelectTrend trend_a (Inr ())] initial_state)"
proof -
  have f: "gateway_failed (GenerateScript (Inl ''timeout of 30000ms exceeded''))"
    by (simp add: gateway_failed_def failure_def)
  from failed_call_keeps_artifact_store [OF disjI1, OF f] f show ?thesis by blast
qed

subsection \<open>C4: approving the script\<close>

text \<open>
  C4 (as amended). \<^verbatim>\<open>approveScript\<close> never looks at the script: what it returns and
  the stage it leaves are the same whatever the script holds. It succeeds exactly when its
  Gateway call succeeds, and then does what \<^verbatim>\<open>nextStep\<close> does, moving from \<open>script\<close>
  to \<open>audio\<close> and changing no artifact; when the Gateway call fails it rethrows, records
  the message in \<open>error\<close> and changes nothing else, so the stage stays.
\<close>

theorem approveScript_follows_gateway:
  "fst (approveScript r (s\<lparr>script := sc\<rparr>)) = fst (approveScript r s) \<and>
   currentStep (snd (approveScript r (s\<lparr>script := sc\<rparr>))) =
     currentStep (snd (approveScript r s)) \<and>
   fst (approveScript (Inr ()) s) = Inr () \<and>
   snd (approveScript (Inr ()) s) = nextStep s \<and>
   artifact_store (snd (approveScript (Inr ()) s)) = artifact_store s \<and>
   (steps s = initial_steps \<and> currentStep s = ''script'' \<longrightarrow>
      currentStep (snd (approveScript (Inr ()) s)) = ''audio'') \<and>
   fst (approveScript (Inl m) s) = Inl (Error m) \<and>
   snd (approveScript (Inl m) s) = s\<lparr>error := Some m\<rparr>"
proof -
  have "currentStep (nextStep (s\<lparr>script := sc\<rparr>)) = currentStep (nextStep s)"
    by (rule nextStep_reads) simp_all
  then have indep: "fst (approveScript r (s\<lparr>script := sc\<rparr>)) = fst (approveScript r s) \<and>
      currentStep (snd (approveScript r (s\<lparr>script := sc\<rparr>))) =
        currentStep (snd (approveScript r s))"
    by (cases r) (simp_all add: approveScript_def)
  have "artifact_store (nextStep s) = artifact_store s"
    by (simp add: artifact_store_def nextStep_fields)
  with indep show ?thesis
    by (simp add: approveScript_def nextStep_initial_steps)
qed

text \<open>C4, witness: approval at the stage \<open>script\<close>.\<close>

theorem approveScript_follows_gateway_witness:
  "currentStep (snd (approveScript (Inr ()) (initial_state\<lparr>currentStep := ''script''\<rparr>)))
     = ''audio''"
proof -
  have h: "steps (initial_state\<lparr>currentStep := ''script''\<rparr>) = initial_steps \<and>
    currentStep (initial_state\<lparr>currentStep := ''script''\<rparr>) = ''script''"
    by (simp add: initial_state_def)
  from approveScript_follows_gateway [where s = "initial_state\<lparr>currentStep := ''script''\<rparr>"
      and r = "Inr ()" and sc = empty_script and m = "''x''"] h
  show ?thesis by auto
qed

text \<open>
  C4, counterexample to the claim as stated. At the stage \<open>script\<close> with an empty script
  (reached from the initial state by one \<^verbatim>\<open>nextStep\<close>), and likewise with a script of
  three spaces, an approval whose Gateway call succeeds returns normally, and moves to
  \<open>audio\<close>; with a non-empty script, an approval whose Gateway call fails throws and stays
  at \<open>script\<close>.
\<close>

theorem approveScript_unguarded_counterexample:
  "script_content (script (nextStep initial_state)) = '''' \<and>
   currentStep (nextStep initial_state) = ''script'' \<and>
   fst (approveScript (Inr ()) (nextStep initial_state)) = Inr () \<and>
   currentStep (snd (approveScript (Inr ()) (nextStep initial_state))) = ''audio'' \<and>
   fst (approveScript (Inr ())
     (initial_state\<lparr>currentStep := ''script'',
        script := \<lparr>script_content = ''   '', script_title = '''', script_duration = 0\<rparr>\<rparr>))
     = Inr () \<and>
   fst (approveScript (Inl ''Network Error'')
     (initial_state\<lparr>currentStep := ''script'',
        script := \<lparr>script_content = ''Hello world'', script_title = ''Greeting'',
                    script_duration = 30\<rparr>\<rparr>)) = Inl (Error ''Network Error'') \<and>
   currentStep (snd (approveScript (Inl ''Network Error'')
     (initial_state\<lparr>currentStep := ''script'',
        script := \<lparr>script_content = ''Hello world'', script_title = ''Greeting'',
                    script_duration = 30\<rparr>\<rparr>))) = ''script''"
  by (simp add: approveScript_def nextStep_def initial_state_def initial_steps_def
      empty_script_def)

subsection \<open>C5: generating the video\<close>

text \<open>
  C5 (as amended). \<^verbatim>\<open>generateVideo\<close> does not look at the avatar or the audio: what it
  returns and the video it leaves are the same whatever the assets and the audio hold.
  When its Gateway call fails it rethrows, records the message, releases \<open>isLoading\<close> and
  leaves the video as it was; when the call succeeds it returns the response and stores its
  path and url with progress 100. In neither case does the stage change.
\<close>

theorem generateVideo_follows_gateway:
  "fst (generateVideo r (s\<lparr>assets := a, audio := b\<rparr>)) = fst (generateVideo r s) \<and>
   video (snd (generateVideo r (s\<lparr>assets := a, audio := b\<rparr>))) =
     video (snd (generateVideo r s)) \<and>
   fst (generateVideo (Inl m) s) = Inl (Error m) \<and>
   snd (generateVideo (Inl m) s) = s\<lparr>isLoading := False, error := Some m\<rparr> \<and>
   video (snd (generateVideo (Inl m) s)) = video s \<and>
   fst (generateVideo (Inr d) s) = Inr d \<and>
   video (snd (generateVideo (Inr d) s)) =
     \<lparr>video_outputPath = resp_video_path d, video_url = resp_video_url d,
      video_progress = 100\<rparr> \<and>
   currentStep (snd (generateVideo r s)) = currentStep s"
  by (cases r)
    (simp_all add: generateVideo_def generateVideo_begin_def generateVideo_end_def)

text \<open>C5, witness: a rejected and an accepted request in the initial state.\<close>

theorem generateVideo_follows_gateway_witness:
  "fst (generateVideo (Inl ''Request failed with status code 400'') initial_state) =
     Inl (Error ''Request failed with status code 400'') \<and>
   video (snd (generateVideo (Inl ''Request failed with status code 400'') initial_state)) =
     empty_video \<and>
   currentStep (snd (generateVideo (Inr video_out) initial_state)) = ''trends''"
proof -
  have h: "video initial_state = empty_video" "currentStep initial_state = ''trends''"
    by (simp_all add: initial_state_def)
  from generateVideo_follows_gateway [where r = "Inr video_out" and s = initial_state
      and a = empty_assets and b = empty_audio and d = video_out
      and m = "''Request failed with status code 400''"] h
  show ?thesis by auto
qed

text \<open>
  C5, counterexample to the claim as stated. In the initial state there is neither an
  avatar nor an audio path (the component's \<open>canGenerate\<close> is false), and a
  \<^verbatim>\<open>generateVideo\<close> whose Gateway call succeeds returns normally and stores the video.
\<close>

theorem generateVideo_unguarded_counterexample:
  "avatar (assets initial_state) = None \<and>
   audio_path (audio initial_state) = '''' \<and>
   \<not> canGenerate initial_state \<and>
   fst (generateVideo (Inr video_out) initial_state) = Inr video_out \<and>
   video (snd (generateVideo (Inr video_out) initial_state)) =
     \<lparr>video_outputPath = ''out/final.mp4'', video_url = ''/videos/final.mp4'',
      video_progress = 100\<rparr>"
  by (simp add: generateVideo_def generateVideo_begin_def generateVideo_end_def canGenerate_def
      initial_state_def empty_assets_def empty_audio_def video_out_def)

subsection \<open>C6: the recorded error\<close>

text \<open>
  C6 (as amended). An action that raises the busy flag has cleared \<open>error\<close> by the time
  its Gateway call is sent, and leaves \<open>error\<close> equal to the message of that call's failure,
  or cleared when the call succeeded; when its guard throws instead, the state is untouched.
  For every action, the \<open>error\<close> it leaves is either the one it found or the outcome of its
  own Gateway call: a message is never recorded except for the failure of the action's own
  call.
\<close>

theorem error_cleared_by_busy_operations:
  "(sets_busy x \<longrightarrow>
      (case call_sent x s of
         Some s1 \<Rightarrow> error s1 = None \<and> error (snd (exec x s)) = gateway_error x
       | None \<Rightarrow> snd (exec x s) = s)) \<and>
   (error (snd (exec x s)) = error s \<or> error (snd (exec x s)) = gateway_error x)"
  by (cases x)
    (auto simp: action_defs nextStep_fields previousStep_fields
      split: sum.splits option.splits)

text \<open>C6, witness: a successful search after a failed one clears the error.\<close>

theorem error_cleared_by_busy_operations_witness:
  "sets_busy (SearchTrends (Inr [trend_a])) \<and>
   error (run_ops [SearchTrends (Inl ''Network Error'')] initial_state)
     = Some ''Network Error'' \<and>
   error (snd (exec (SearchTrends (Inr [trend_a]))
     (run_ops [SearchTrends (Inl ''Network Error'')] initial_state))) = None"
proof -
  let ?s = "run_ops [SearchTrends (Inl ''Network Error'')] initial_state"
  have b: "sets_busy (SearchTrends (Inr [trend_a]))"
    by simp
  have c: "call_sent (SearchTrends (Inr [trend_a])) ?s = Some (searchTrends_begin ?s)"
    by simp
  have e: "error ?s = Some ''Network Error''"
    by (simp add: action_defs)
  have g: "gateway_error (SearchTrends (Inr [trend_a])) = None"
    by (simp add: failure_def)
  from error_cleared_by_busy_operations [of "SearchTrends (Inr [trend_a])" ?s] b c e g
  show ?thesis by simp
qed

text \<open>
  C6, counterexample to the claim as stated. The error recorded by a failed search is
  still there after a successful \<^verbatim>\<open>updateScript\<close>, after a successful
  \<^verbatim>\<open>approveScript\<close> following it, and after \<^verbatim>\<open>previousStep\<close>: none of them
  clears \<open>error\<close> when it starts.
\<close>

theorem stale_error_counterexample:
  "error (run_ops [SearchTrends (Inl ''Network Error'')] initial_state)
     = Some ''Network Error'' \<and>
   fst (exec (UpdateScript ''Hi'' (Inr ()))
     (run_ops [SearchTrends (Inl ''Network Error'')] initial_state)) = None \<and>
   error (run_ops [SearchTrends (Inl ''Network Error''), UpdateScript ''Hi'' (Inr ())]
     initial_state) = Some ''Network Error'' \<and>
   error (run_ops [SearchTrends (Inl ''Network Error''), UpdateScript ''Hi'' (Inr ()),
     ApproveScript (Inr ())] initial_state) = Some ''Network Error'' \<and>
   error (run_ops [SearchTrends (Inl ''Network Error''), PreviousStep] initial_state)
     = Some ''Network Error''"
  by (simp add: action_defs nextStep_fields previousStep_fields initial_state_def)

subsection \<open>C7: the busy flag\<close>

text \<open>
  C7. For every action that raises the busy flag, in every state and for every outcome of
  its Gateway call: if the call is sent, \<open>isLoading\<close> is true while it is pending and false
  when the action ends, whether it returns or throws; if the guard throws before the call,
  the flag was never raised and the state is untouched.
\<close>

theorem busy_flag_released:
  "sets_busy x \<Longrightarrow>
   (case call_sent x s of
      Some s1 \<Rightarrow> isLoading s1 \<and> \<not> isLoading (snd (exec x s))
    | None \<Rightarrow> snd (exec x s) = s)"
  by (cases x) (auto simp: action_defs nextStep_fields split: sum.splits option.splits)

text \<open>C7, witness: a video generation that times out.\<close>

theorem busy_flag_released_witness:
  "sets_busy (GenerateVideo (Inl ''timeout of 30000ms exceeded'')) \<and>
   call_sent (GenerateVideo (Inl ''timeout of 30000ms exceeded'')) initial_state
     = Some (initial_state\<lparr>isLoading := True\<rparr>) \<and>
   \<not> isLoading (snd (exec (GenerateVideo (Inl ''timeout of 30000ms exceeded'')) initial_state))"
proof -
  have b: "sets_busy (GenerateVideo (Inl ''timeout of 30000ms exceeded''))"
    by simp
  have c: "call_sent (GenerateVideo (Inl ''timeout of 30000ms exceeded'')) initial_state
     = Some (initial_state\<lparr>isLoading := True\<rparr>)"
    by (simp add: generateVideo_begin_def initial_state_def)
  from busy_flag_released [OF b, of initial_state] b c show ?thesis
    by simp
qed

subsection \<open>C8: stepping back\<close>

text \<open>
  C8. \<^verbatim>\<open>previousStep\<close> changes no artifact, and no field at all other than the stage
  pointer. When the index of the current stage is greater than zero the stage becomes the
  step before it; otherwise the state is unchanged. With the store's six steps: \<open>trends\<close>
  stays, and every other stage moves to its predecessor.
\<close>

theorem previousStep_changes_only_stage:
  "artifact_store (previousStep s) = artifact_store s \<and>
   previousStep s = s\<lparr>currentStep := currentStep (previousStep s)\<rparr> \<and>
   (if 0 < findIndex (\<lambda>x. step_id x = currentStep s) (steps s)
    then currentStep (previousStep s) =
           step_id (steps s ! nat (findIndex (\<lambda>x. step_id x = currentStep s) (steps s) - 1))
    else previousStep s = s) \<and>
   (steps s = initial_steps \<longrightarrow>
      (currentStep s = ''trends'' \<longrightarrow> previousStep s = s) \<and>
      (currentStep s = ''script'' \<longrightarrow> currentStep (previousStep s) = ''trends'') \<and>
      (currentStep s = ''audio'' \<longrightarrow> currentStep (previousStep s) = ''script'') \<and>
      (currentStep s = ''assets'' \<longrightarrow> currentStep (previousStep s) = ''audio'') \<and>
      (currentStep s = ''video'' \<longrightarrow> currentStep (previousStep s) = ''assets'') \<and>
      (currentStep s = ''complete'' \<longrightarrow> currentStep (previousStep s) = ''video''))"
proof -
  have "artifact_store (previousStep s) = artifact_store s"
    by (simp add: artifact_store_def previousStep_fields)
  moreover have "previousStep s = s\<lparr>currentStep := currentStep (previousStep s)\<rparr>"
    by (rule previousStep_frame)
  moreover have "if 0 < findIndex (\<lambda>x. step_id x = currentStep s) (steps s)
    then currentStep (previousStep s) =
           step_id (steps s ! nat (findIndex (\<lambda>x. step_id x = currentStep s) (steps s) - 1))
    else previousStep s = s"
    by (simp add: previousStep_def Let_def)
  ultimately show ?thesis
    by (simp add: previousStep_initial_steps)
qed

text \<open>C8, witness: stepping back from \<open>audio\<close>.\<close>

theorem previousStep_changes_only_stage_witness:
  "currentStep (previousStep (initial_state\<lparr>currentStep := ''audio''\<rparr>)) = ''script'' \<and>
   artifact_store (previousStep (initial_state\<lparr>currentStep := ''audio''\<rparr>)) =
     artifact_store (initial_state\<lparr>currentStep := ''audio''\<rparr>)"
proof -
  have h: "steps (initial_state\<lparr>currentStep := ''audio''\<rparr>) = initial_steps"
    "currentStep (initial_state\<lparr>currentStep := ''audio''\<rparr>) = ''audio''"
    by (simp_all add: initial_state_def)
  from previousStep_changes_only_stage [of "initial_state\<lparr>currentStep := ''audio''\<rparr>"] h
  show ?thesis by auto
qed

subsection \<open>C9: selecting a trend that was not searched\<close>

text \<open>
  C9 (as amended). \<^verbatim>\<open>selectTrend\<close> never looks at the list of searched trends: what
  it returns, the trend it leaves selected and the stage it leaves are the same whatever
  the list holds. A trend that is not in the list is committed and the stage moves forward
  whenever the Gateway call succeeds. The selection is rejected only when the Gateway call
  fails, and then neither the selected trend nor the stage changes.
\<close>

theorem selectTrend_ignores_trend_list:
  "fst (selectTrend t r (s\<lparr>trends := ts\<rparr>)) = fst (selectTrend t r s) \<and>
   selectedTrend (snd (selectTrend t r (s\<lparr>trends := ts\<rparr>))) =
     selectedTrend (snd (selectTrend t r s)) \<and>
   currentStep (snd (selectTrend t r (s\<lparr>trends := ts\<rparr>))) =
     currentStep (snd (selectTrend t r s)) \<and>
   (t \<notin> set (trends s) \<longrightarrow>
      fst (selectTrend t (Inr ()) s) = Inr () \<and>
      selectedTrend (snd (selectTrend t (Inr ()) s)) = Some t \<and>
      currentStep (snd (selectTrend t (Inr ()) s)) = currentStep (nextStep s)) \<and>
   fst (selectTrend t (Inl m) s) = Inl (Error m) \<and>
   selectedTrend (snd (selectTrend t (Inl m) s)) = selectedTrend s \<and>
   currentStep (snd (selectTrend t (Inl m) s)) = currentStep s"
proof -
  have a: "currentStep (nextStep (s\<lparr>trends := ts, isLoading := True, error := None,
      selectedTrend := Some t, isLoading := False\<rparr>)) = currentStep (nextStep s)"
    by (rule nextStep_reads) simp_all
  have b: "currentStep (nextStep (s\<lparr>isLoading := True, error := None,
      selectedTrend := Some t, isLoading := False\<rparr>)) = currentStep (nextStep s)"
    by (rule nextStep_reads) simp_all
  show ?thesis
    using a b
    by (cases r)
      (simp_all add: selectTrend_def selectTrend_begin_def selectTrend_end_def nextStep_fields)
qed

text \<open>C9, witness: after a search that returned \<open>trend_a\<close> only, \<open>trend_b\<close> is selected.\<close>

theorem selectTrend_ignores_trend_list_witness:
  "trend_b \<notin> set (trends (snd (searchTrends (Inr [trend_a]) initial_state))) \<and>
   selectedTrend (snd (selectTrend trend_b (Inr ())
     (snd (searchTrends (Inr [trend_a]) initial_state)))) = Some trend_b"
proof -
  have h: "trend_b \<notin> set (trends (snd (searchTrends (Inr [trend_a]) initial_state)))"
    by (simp add: action_defs initial_state_def trend_a_def trend_b_def)
  from selectTrend_ignores_trend_list
    [where t = trend_b and s = "snd (searchTrends (Inr [trend_a]) initial_state)"
      and r = "Inr ()" and ts = "[]" and m = "''x''"] h
  show ?thesis by auto
qed

text \<open>
  C9, counterexample to the claim as stated. After a search that returned \<open>trend_a\<close> only,
  selecting \<open>trend_b\<close> succeeds, commits \<open>trend_b\<close> and moves the stage to \<open>script\<close>.
\<close>

theorem selectTrend_accepts_unlisted_counterexample:
  "trends (snd (searchTrends (Inr [trend_a]) initial_state)) = [trend_a] \<and>
   trend_b \<notin> set (trends (snd (searchTrends (Inr [trend_a]) initial_state))) \<and>
   fst (selectTrend trend_b (Inr ()) (snd (searchTrends (Inr [trend_a]) initial_state)))
     = Inr () \<and>
   selectedTrend (snd (selectTrend trend_b (Inr ())
     (snd (searchTrends (Inr [trend_a]) initial_state)))) = Some trend_b \<and>
   currentStep (snd (selectTrend trend_b (Inr ())
     (snd (searchTrends (Inr [trend_a]) initial_state)))) = ''script''"
  by (simp add: action_defs nextStep_def initial_state_def initial_steps_def
      trend_a_def trend_b_def)

subsection \<open>C10: saving an edited script\<close>

text \<open>
  C10. An \<^verbatim>\<open>updateScript\<close> whose Gateway call succeeds returns normally and replaces
  the content of the script; the script's title and duration, the stage, the selected
  trend, the audio, the assets and the video, and every other field of the state, are
  unchanged.
\<close>

theorem updateScript_replaces_only_content:
  "fst (updateScript c (Inr ()) s) = Inr () \<and>
   snd (updateScript c (Inr ()) s) = s\<lparr>script := (script s)\<lparr>script_content := c\<rparr>\<rparr> \<and>
   script_content (script (snd (updateScript c (Inr ()) s))) = c \<and>
   script_title (script (snd (updateScript c (Inr ()) s))) = script_title (script s) \<and>
   script_duration (script (snd (updateScript c (Inr ()) s))) = script_duration (script s) \<and>
   currentStep (snd (updateScript c (Inr ()) s)) = currentStep s \<and>
   selectedTrend (snd (updateScript c (Inr ()) s)) = selectedTrend s \<and>
   audio (snd (updateScript c (Inr ()) s)) = audio s \<and>
   assets (snd (updateScript c (Inr ()) s)) = assets s \<and>
   video (snd (updateScript c (Inr ()) s)) = video s"
  by (simp add: updateScript_def)

end
